theory Spec2Isabelle
  imports Complex_Main
begin

section \<open>PyDebFlow: the simulation drivers of run_simulation.py\<close>

text \<open>
  The repository's sources are the two drivers \<^verbatim>\<open>run_synthetic_test\<close> and
  \<^verbatim>\<open>run_dem_simulation\<close> of \<^verbatim>\<open>run_simulation.py\<close> and the command-line front ends.
  The numerical core (\<^verbatim>\<open>Terrain\<close>, \<^verbatim>\<open>TwoPhaseFlowModel\<close>, \<^verbatim>\<open>NOCTVDSolver\<close>) and the
  exporter are imported by the drivers and are not among the sources: what the
  drivers get from them is a parameter of the definitions below.

  NumPy's \<^verbatim>\<open>float64\<close> is read as \<^typ>\<open>real\<close>: no rounding, no infinities, no NaN
  (the one place where rounding decides a property, the split of the release between
  the phases, is also written out in binary64 arithmetic).
  A two-dimensional array is the list of its rows; the elementwise operations are
  those of NumPy on operands of one shape (what NumPy does with operands of
  different shapes, broadcasting or \<^verbatim>\<open>ValueError\<close>, is not modelled: every array
  of a run has the terrain's shape).
\<close>

subsection \<open>Arrays\<close>

type_synonym grid = "real list list"

datatype py_error = IndexError | ValueError

text \<open>\<^verbatim>\<open>a.shape == (r, c)\<close>\<close>

definition has_shape :: "nat \<Rightarrow> nat \<Rightarrow> grid \<Rightarrow> bool" where
  "has_shape r c g \<longleftrightarrow> length g = r \<and> list_all (\<lambda>row. length row = c) g"

text \<open>\<^verbatim>\<open>np.zeros((r, c))\<close>\<close>

definition np_zeros :: "nat \<Rightarrow> nat \<Rightarrow> grid" where
  "np_zeros r c = replicate r (replicate c 0)"

text \<open>\<^verbatim>\<open>a + b\<close>, \<^verbatim>\<open>np.maximum(a, b)\<close>, \<^verbatim>\<open>a**2\<close>, \<^verbatim>\<open>np.sqrt(a)\<close>, \<^verbatim>\<open>a * k\<close>\<close>

definition np_add :: "grid \<Rightarrow> grid \<Rightarrow> grid" where
  "np_add a b = map2 (map2 (+)) a b"

definition np_maximum :: "grid \<Rightarrow> grid \<Rightarrow> grid" where
  "np_maximum a b = map2 (map2 max) a b"

definition np_square :: "grid \<Rightarrow> grid" where
  "np_square a = map (map (\<lambda>x. x\<^sup>2)) a"

definition np_sqrt :: "grid \<Rightarrow> grid" where
  "np_sqrt a = map (map sqrt) a"

definition np_scale :: "grid \<Rightarrow> real \<Rightarrow> grid" where
  "np_scale a k = map (map (\<lambda>x. x * k)) a"

text \<open>\<^verbatim>\<open>a.sum()\<close> and \<^verbatim>\<open>a.sum(axis=1)\<close> (one sum per row)\<close>

definition np_sum :: "grid \<Rightarrow> real" where
  "np_sum a = sum_list (map sum_list a)"

definition np_sum_axis1 :: "grid \<Rightarrow> real list" where
  "np_sum_axis1 a = map sum_list a"

text \<open>\<^verbatim>\<open>v > k\<close> on a vector, and \<^verbatim>\<open>np.sum(a > k)\<close> on an array (the number of
  entries above \<open>k\<close>)\<close>

definition np_greater :: "real list \<Rightarrow> real \<Rightarrow> bool list" where
  "np_greater v k = map (\<lambda>x. k < x) v"

definition np_count_greater :: "grid \<Rightarrow> real \<Rightarrow> nat" where
  "np_count_greater a k = length (filter (\<lambda>x. k < x) (concat a))"

text \<open>
  \<^verbatim>\<open>np.argmax(v)\<close> on a vector: the index of the first occurrence of the largest
  entry; on an empty vector NumPy raises \<^verbatim>\<open>ValueError\<close>. Booleans are ordered
  \<open>False < True\<close>.
\<close>

definition np_argmax :: "'a::linorder list \<Rightarrow> py_error + nat" where
  "np_argmax v =
     (if v = [] then Inl ValueError
      else Inr (length (takeWhile (\<lambda>x. x < Max (set v)) v)))"

subsection \<open>The data of a run\<close>

text \<open>What the drivers read of a \<^verbatim>\<open>Terrain\<close>.\<close>

record terrain =
  rows :: nat
  cols :: nat
  cell_size :: real
  x_origin :: real
  y_origin :: real

record flow_state =
  h_solid :: grid
  h_fluid :: grid
  u_solid :: grid
  v_solid :: grid
  u_fluid :: grid
  v_fluid :: grid

text \<open>The keyword arguments the drivers pass to \<^verbatim>\<open>FlowParameters\<close> and \<^verbatim>\<open>SolverConfig\<close>.\<close>

record flow_parameters =
  solid_density :: real
  fluid_density :: real
  basal_friction_angle :: real
  voellmy_mu :: real
  voellmy_xi :: real

record solver_config =
  cfl_number :: real
  max_timestep :: real
  flux_limiter :: string
  boundary_type :: string

text \<open>The keyword arguments of \<^verbatim>\<open>SimulationResults\<close>.\<close>

record simulation_results =
  times_list :: "real list"
  max_flow_height :: grid
  max_velocity :: grid
  max_pressure :: grid
  final_h_solid :: grid
  final_h_fluid :: grid
  final_u :: grid
  final_v :: grid

type_synonym outputs = "(real \<times> flow_state) list"

subsection \<open>Model and solver configuration\<close>

text \<open>\<^verbatim>\<open>run_synthetic_test\<close>, lines 61-79.\<close>

definition synthetic_params :: flow_parameters where
  "synthetic_params =
     \<lparr>solid_density = 2500, fluid_density = 1100, basal_friction_angle = 22,
      voellmy_mu = 0.15, voellmy_xi = 500\<rparr>"

definition synthetic_solver_config :: solver_config where
  "synthetic_solver_config =
     \<lparr>cfl_number = 0.4, max_timestep = 0.5, flux_limiter = ''minmod'',
      boundary_type = ''outflow''\<rparr>"

text \<open>
  \<^verbatim>\<open>run_dem_simulation\<close>, lines 309-318. The driver passes \<^verbatim>\<open>cfl_number\<close> and
  \<^verbatim>\<open>max_timestep\<close> only; the limiter and the boundary type are the defaults of the
  \<^verbatim>\<open>SolverConfig\<close> class, which is not among the sources, and are parameters here.
\<close>

definition dem_params :: flow_parameters where
  "dem_params =
     \<lparr>solid_density = 2500, fluid_density = 1100, basal_friction_angle = 22,
      voellmy_mu = 0.12, voellmy_xi = 400\<rparr>"

definition dem_solver_config :: "string \<Rightarrow> string \<Rightarrow> solver_config" where
  "dem_solver_config default_limiter default_boundary =
     \<lparr>cfl_number = 0.4, max_timestep = 0.5, flux_limiter = default_limiter,
      boundary_type = default_boundary\<rparr>"



subsection \<open>The release zone\<close>

text \<open>
  \<^verbatim>\<open>run_dem_simulation\<close>, lines 301-305: a coordinate the caller left out
  (\<^verbatim>\<open>None\<close>) is taken from the terrain's extent, with Python's floor division.
\<close>

definition release_center :: "terrain \<Rightarrow> int option \<Rightarrow> int option \<Rightarrow> int \<times> int" where
  "release_center T release_i release_j =
     ((case release_i of None \<Rightarrow> int (rows T) div 5 | Some i \<Rightarrow> i),
      (case release_j of None \<Rightarrow> int (cols T) div 2 | Some j \<Rightarrow> j))"

subsection \<open>The collaborators of the drivers\<close>

text \<open>
  The three calls the drivers make into the numerical core, whose code is not
  among the sources: \<^verbatim>\<open>terrain.create_release_zone(i, j, radius, height)\<close>,
  \<^verbatim>\<open>model.compute_impact_pressure(s)\<close> for the model built from the parameters, and
  \<^verbatim>\<open>solver.run_simulation(state, t_end, output_interval)\<close> for the solver built
  from terrain, model and configuration. The progress callback only prints.
\<close>

record core =
  create_release_zone :: "terrain \<Rightarrow> int \<Rightarrow> int \<Rightarrow> int \<Rightarrow> real \<Rightarrow> grid"
  compute_impact_pressure :: "flow_parameters \<Rightarrow> flow_state \<Rightarrow> grid"
  run_simulation ::
    "terrain \<Rightarrow> flow_parameters \<Rightarrow> solver_config \<Rightarrow> flow_state \<Rightarrow> real \<Rightarrow> real \<Rightarrow> outputs"

text \<open>Modelled from the spec: \<^verbatim>\<open>FlowState.zeros((rows, cols))\<close> of the \<^verbatim>\<open>FlowState\<close> class,
  which is not among the sources; section 3 has a state "created zero-filled", with
  every array of the terrain's shape.\<close>

definition FlowState_zeros :: "nat \<Rightarrow> nat \<Rightarrow> flow_state" where
  "FlowState_zeros r c =
     \<lparr>h_solid = np_zeros r c, h_fluid = np_zeros r c, u_solid = np_zeros r c,
      v_solid = np_zeros r c, u_fluid = np_zeros r c, v_fluid = np_zeros r c\<rparr>"

subsection \<open>Initial state and volume\<close>

text \<open>Lines 84-94 and 323-326: the release field is split between the phases.\<close>

definition initial_state :: "terrain \<Rightarrow> grid \<Rightarrow> flow_state" where
  "initial_state T release =
     (FlowState_zeros (rows T) (cols T))
       \<lparr>h_solid := np_scale release 0.7, h_fluid := np_scale release 0.3\<rparr>"

text \<open>Lines 96, 170 and 328:
  \<^verbatim>\<open>(s.h_solid.sum() + s.h_fluid.sum()) * terrain.cell_size**2\<close>.\<close>

definition flow_volume :: "terrain \<Rightarrow> flow_state \<Rightarrow> real" where
  "flow_volume T s = (np_sum (h_solid s) + np_sum (h_fluid s)) * (cell_size T)\<^sup>2"

subsection \<open>Processing the solver's output\<close>

text \<open>
  Lines 128-135 and 357-364: the loop over the recorded snapshots, with the three
  running maxima as its state.
\<close>

fun accumulate_maxima ::
  "(flow_state \<Rightarrow> grid) \<Rightarrow> outputs \<Rightarrow> grid \<times> grid \<times> grid \<Rightarrow> grid \<times> grid \<times> grid" where
  "accumulate_maxima cip [] acc = acc"
| "accumulate_maxima cip ((t, s) # rest) (max_height, max_vel, max_pres) =
     (let h_total = np_add (h_solid s) (h_fluid s);
          speed = np_sqrt (np_add (np_square (u_solid s)) (np_square (v_solid s)));
          pressure = cip s
      in accumulate_maxima cip rest
           (np_maximum max_height h_total, np_maximum max_vel speed,
            np_maximum max_pres pressure))"

text \<open>
  In \<^verbatim>\<open>run_dem_simulation\<close> the same loop also appends a copy of \<^verbatim>\<open>h_total\<close> to
  \<^verbatim>\<open>snapshots\<close> and the time to \<^verbatim>\<open>times\<close> (lines 366-367).
\<close>

fun accumulate_dem ::
  "(flow_state \<Rightarrow> grid) \<Rightarrow> outputs \<Rightarrow> (grid \<times> grid \<times> grid) \<times> grid list \<times> real list \<Rightarrow>
   (grid \<times> grid \<times> grid) \<times> grid list \<times> real list" where
  "accumulate_dem cip [] acc = acc"
| "accumulate_dem cip ((t, s) # rest) ((max_height, max_vel, max_pres), snapshots, ts) =
     (let h_total = np_add (h_solid s) (h_fluid s);
          speed = np_sqrt (np_add (np_square (u_solid s)) (np_square (v_solid s)));
          pressure = cip s
      in accumulate_dem cip rest
           ((np_maximum max_height h_total, np_maximum max_vel speed,
             np_maximum max_pres pressure),
            snapshots @ [h_total], ts @ [t]))"

text \<open>
  Lines 137-149: \<^verbatim>\<open>outputs[-1]\<close> raises \<^verbatim>\<open>IndexError\<close> on an empty sequence; the
  times are the list comprehension \<^verbatim>\<open>[t for t, _ in outputs]\<close>.
\<close>

definition synthetic_results ::
  "terrain \<Rightarrow> (flow_state \<Rightarrow> grid) \<Rightarrow> outputs \<Rightarrow> py_error + simulation_results" where
  "synthetic_results T cip outs =
     (let z = np_zeros (rows T) (cols T);
          (max_height, max_vel, max_pres) = accumulate_maxima cip outs (z, z, z)
      in if outs = [] then Inl IndexError
         else let final_state = snd (last outs)
           in Inr \<lparr>times_list = map fst outs,
                   max_flow_height = max_height,
                   max_velocity = max_vel,
                   max_pressure = max_pres,
                   final_h_solid = h_solid final_state,
                   final_h_fluid = h_fluid final_state,
                   final_u = u_solid final_state,
                   final_v = v_solid final_state\<rparr>)"

text \<open>Lines 351-382: the same with the times collected in the loop; the
  snapshots of \<^verbatim>\<open>h_total\<close> go to the viewer.\<close>

definition dem_results ::
  "terrain \<Rightarrow> (flow_state \<Rightarrow> grid) \<Rightarrow> outputs \<Rightarrow>
   py_error + simulation_results \<times> grid list" where
  "dem_results T cip outs =
     (let z = np_zeros (rows T) (cols T);
          ((max_height, max_vel, max_pres), snapshots, ts) =
             accumulate_dem cip outs ((z, z, z), [], [])
      in if outs = [] then Inl IndexError
         else let final_state = snd (last outs)
           in Inr (\<lparr>times_list = ts,
                    max_flow_height = max_height,
                    max_velocity = max_vel,
                    max_pressure = max_pres,
                    final_h_solid = h_solid final_state,
                    final_h_fluid = h_fluid final_state,
                    final_u = u_solid final_state,
                    final_v = v_solid final_state\<rparr>, snapshots))"

text \<open>Lines 151-155 and 384-388: the metadata dictionary of the exporter.\<close>

definition export_metadata :: "terrain \<Rightarrow> (string \<rightharpoonup> real)" where
  "export_metadata T =
     [''cell_size'' \<mapsto> cell_size T, ''x_origin'' \<mapsto> x_origin T,
      ''y_origin'' \<mapsto> y_origin T]"

subsection \<open>Summary statistics\<close>

text \<open>Lines 171-172 and 182: affected area, and the runout as
  \<^verbatim>\<open>np.argmax(max_height.sum(axis=1) > 0)\<close> times the cell size.\<close>

definition affected_area :: "terrain \<Rightarrow> grid \<Rightarrow> real" where
  "affected_area T max_height = real (np_count_greater max_height 0.1) * (cell_size T)\<^sup>2"

definition runout_index :: "grid \<Rightarrow> py_error + nat" where
  "runout_index max_height = np_argmax (np_greater (np_sum_axis1 max_height) 0)"

definition approximate_runout :: "terrain \<Rightarrow> grid \<Rightarrow> py_error + real" where
  "approximate_runout T max_height =
     (case runout_index max_height of
        Inl e \<Rightarrow> Inl e
      | Inr runout \<Rightarrow> Inr (real runout * cell_size T))"

subsection \<open>The drivers\<close>

text \<open>
  What a driver hands to \<^verbatim>\<open>ResultsExporter(output_dir, metadata).export_results(results,
  format='npy')\<close>.
\<close>

record export_call =
  exported_results :: simulation_results
  exported_metadata :: "string \<rightharpoonup> real"
  exported_format :: string

text \<open>The figures \<^verbatim>\<open>run_synthetic_test\<close> prints (lines 170-182).\<close>

record synthetic_summary =
  initial_volume :: real
  final_volume :: real
  affected_area_m2 :: real
  runout_m :: real
  time_steps :: nat

text \<open>
  \<^verbatim>\<open>run_synthetic_test\<close>, lines 59-182, for the terrain \<open>T\<close> that
  \<^verbatim>\<open>Terrain.create_synthetic_slope\<close> returned. The state object handed to the solver
  is not read again after the call. Directory creation, printing and plotting are
  left out.
\<close>

definition run_synthetic_test ::
  "core \<Rightarrow> terrain \<Rightarrow> real \<Rightarrow> py_error + export_call \<times> synthetic_summary" where
  "run_synthetic_test K T t_end =
     (let params = synthetic_params;
          solver_cfg = synthetic_solver_config;
          release = create_release_zone K T 15 30 8 5;
          state = initial_state T release;
          v0 = flow_volume T state;
          outs = run_simulation K T params solver_cfg state t_end 1
      in case synthetic_results T (compute_impact_pressure K params) outs of
           Inl e \<Rightarrow> Inl e
         | Inr results \<Rightarrow>
             (case approximate_runout T (max_flow_height results) of
                Inl e \<Rightarrow> Inl e
              | Inr runout \<Rightarrow>
                  Inr (\<lparr>exported_results = results,
                         exported_metadata = export_metadata T,
                         exported_format = ''npy''\<rparr>,
                       \<lparr>initial_volume = v0,
                         final_volume = flow_volume T (snd (last outs)),
                         affected_area_m2 = affected_area T (max_flow_height results),
                         runout_m = runout,
                         time_steps = length outs\<rparr>)))"

text \<open>
  \<^verbatim>\<open>run_dem_simulation\<close>, lines 301-401, for the terrain \<open>T\<close> that \<^verbatim>\<open>Terrain.load\<close>
  returned: the export call, the initial volume it prints, and the snapshots and
  times it passes to the viewer. The two strings are the defaults of
  \<^verbatim>\<open>SolverConfig\<close>.
\<close>

definition run_dem_simulation ::
  "core \<Rightarrow> string \<Rightarrow> string \<Rightarrow> terrain \<Rightarrow> real \<Rightarrow> int option \<Rightarrow> int option \<Rightarrow> int \<Rightarrow> real \<Rightarrow>
   py_error + export_call \<times> real \<times> grid list \<times> real list" where
  "run_dem_simulation K default_limiter default_boundary T t_end release_i release_j
       release_radius release_height =
     (let (ri, rj) = release_center T release_i release_j;
          params = dem_params;
          solver_cfg = dem_solver_config default_limiter default_boundary;
          release = create_release_zone K T ri rj release_radius release_height;
          state = initial_state T release;
          v0 = flow_volume T state;
          outs = run_simulation K T params solver_cfg state t_end (max 1 (t_end / 60))
      in case dem_results T (compute_impact_pressure K params) outs of
           Inl e \<Rightarrow> Inl e
         | Inr (results, snapshots) \<Rightarrow>
             Inr (\<lparr>exported_results = results,
                    exported_metadata = export_metadata T,
                    exported_format = ''npy''\<rparr>,
                  v0, snapshots, times_list results))"

subsection \<open>Conditions on a sequence of recorded snapshots\<close>

text \<open>Every field of a state has the terrain's shape (the invariant of
  \<^verbatim>\<open>FlowState\<close>, spec section 3), and both depth fields are non-negative.\<close>

definition state_has_shape :: "nat \<Rightarrow> nat \<Rightarrow> flow_state \<Rightarrow> bool" where
  "state_has_shape r c s \<longleftrightarrow>
     has_shape r c (h_solid s) \<and> has_shape r c (h_fluid s) \<and>
     has_shape r c (u_solid s) \<and> has_shape r c (v_solid s) \<and>
     has_shape r c (u_fluid s) \<and> has_shape r c (v_fluid s)"

definition grid_nonneg :: "grid \<Rightarrow> bool" where
  "grid_nonneg g \<longleftrightarrow> list_all (list_all (\<lambda>x. 0 \<le> x)) g"


definition depths_nonneg :: "outputs \<Rightarrow> bool" where
  "depths_nonneg outs \<longleftrightarrow>
     list_all (\<lambda>(t, s). grid_nonneg (h_solid s) \<and> grid_nonneg (h_fluid s)) outs"



subsection \<open>The solver's time loop\<close>

text \<open>
  \<^verbatim>\<open>NOCTVDSolver\<close> (\<^verbatim>\<open>src/core/noc_tvd_solver.py\<close>) is not among the sources. The
  definitions of this subsection follow section 4.5 of the spec.
\<close>

text \<open>Modelled from the spec: the failure of \<^verbatim>\<open>NOCTVDSolver.run_simulation\<close> that
  section 4.5 names, raised when the timestep stays zero.\<close>

datatype solver_error = StalledSimulationError

text \<open>Modelled from the spec: a \<^verbatim>\<open>NOCTVDSolver\<close>, which holds a terrain and a
  configuration (section 2). What the spec leaves to the flow model is a field
  here: the largest wave speed of a state (used in step 3), and the explicit update
  of steps 1, 2 and 4 (reconstruction, boundary cells, fluxes and sources over
  \<open>dt\<close>); so is the number of consecutive zero timesteps after which a run counts
  as stalled, which the spec does not fix.\<close>

record noc_tvd_solver =
  solver_terrain :: terrain
  solver_cfg :: solver_config
  max_wave_speed :: "flow_state \<Rightarrow> real"
  advance :: "flow_state \<Rightarrow> real \<Rightarrow> flow_state"
  stall_limit :: nat

text \<open>Modelled from the spec: step 3 of the solver's per-step algorithm, the stable
  timestep \<open>cfl_number * cell_size / max wave speed\<close>, clamped to \<open>max_timestep\<close>, and
  \<open>max_timestep\<close> itself when the largest wave speed is zero.\<close>

definition stable_timestep :: "noc_tvd_solver \<Rightarrow> flow_state \<Rightarrow> real" where
  "stable_timestep S s =
     (let w = max_wave_speed S s
      in if w = 0 then max_timestep (solver_cfg S)
         else min (cfl_number (solver_cfg S) * cell_size (solver_terrain S) / w)
                  (max_timestep (solver_cfg S)))"

text \<open>Modelled from the spec: step 5 of the solver's per-step algorithm on the depth
  array of one phase, "clamp negative depths to zero".\<close>

definition clamp_depth :: "grid \<Rightarrow> grid" where
  "clamp_depth h = map (map (\<lambda>x. if x < 0 then 0 else x)) h"

text \<open>Modelled from the spec: step 5 of the solver's per-step algorithm on a velocity
  component \<open>w\<close> of the phase with depth array \<open>h\<close>, "and zero the corresponding
  phase velocity": zero in the cells whose depth was negative.\<close>

definition zero_where_negative :: "grid \<Rightarrow> grid \<Rightarrow> grid" where
  "zero_where_negative h w = map2 (map2 (\<lambda>x y. if x < 0 then 0 else y)) h w"

text \<open>Modelled from the spec: step 5 of the solver's per-step algorithm on a state,
  both phases.\<close>

definition clamp_negative_depths :: "flow_state \<Rightarrow> flow_state" where
  "clamp_negative_depths s =
     \<lparr>h_solid = clamp_depth (h_solid s),
      h_fluid = clamp_depth (h_fluid s),
      u_solid = zero_where_negative (h_solid s) (u_solid s),
      v_solid = zero_where_negative (h_solid s) (v_solid s),
      u_fluid = zero_where_negative (h_fluid s) (u_fluid s),
      v_fluid = zero_where_negative (h_fluid s) (v_fluid s)\<rparr>"

text \<open>Modelled from the spec: steps 1 to 5 of the solver's per-step algorithm, the
  timestep and the state after the update and the clamp.\<close>

definition solver_step :: "noc_tvd_solver \<Rightarrow> flow_state \<Rightarrow> flow_state \<times> real" where
  "solver_step S s =
     (let dt = stable_timestep S s
      in (clamp_negative_depths (advance S s dt), dt))"

text \<open>Modelled from the spec: steps 6 and 7 of the solver's per-step algorithm and
  its failure mode, the loop of \<^verbatim>\<open>NOCTVDSolver.run_simulation\<close>. A step is taken, the
  clock advances by \<open>dt\<close>, and the state is recorded when the time since the last
  record is at least \<open>output_interval\<close>; the loop repeats until \<open>time \<ge> t_end\<close>, and
  the final state is recorded if that step did not record it. The run ends with
  \<open>StalledSimulationError\<close> after \<open>stall_limit\<close> consecutive steps with \<open>dt = 0\<close>.
  The first argument bounds the number of steps: \<open>None\<close> means the run had not
  finished within it. The arguments after \<open>output_interval\<close> are the loop's
  variables: state, clock, time of the last record, count of consecutive zero
  timesteps, and the records so far.\<close>

fun solver_loop ::
  "nat \<Rightarrow> noc_tvd_solver \<Rightarrow> real \<Rightarrow> real \<Rightarrow> flow_state \<Rightarrow> real \<Rightarrow> real \<Rightarrow> nat \<Rightarrow> outputs \<Rightarrow>
   (solver_error + outputs) option" where
  "solver_loop 0 S t_end output_interval s t t_last stalled acc = None"
| "solver_loop (Suc fuel) S t_end output_interval s t t_last stalled acc =
     (let (s', dt) = solver_step S s;
          stalled' = (if dt = 0 then Suc stalled else 0)
      in if dt = 0 \<and> stall_limit S \<le> stalled' then Some (Inl StalledSimulationError)
         else
           let t' = t + dt;
               due = (output_interval \<le> t' - t_last);
               acc' = (if due then acc @ [(t', s')] else acc);
               t_last' = (if due then t' else t_last)
           in if t_end \<le> t' then Some (Inr (if due then acc' else acc' @ [(t', s')]))
              else solver_loop fuel S t_end output_interval s' t' t_last' stalled' acc')"

text \<open>Modelled from the spec: \<^verbatim>\<open>NOCTVDSolver.run_simulation(state, t_end,
  output_interval)\<close>, the loop started at time zero with nothing recorded.\<close>

definition solver_run_simulation ::
  "nat \<Rightarrow> noc_tvd_solver \<Rightarrow> flow_state \<Rightarrow> real \<Rightarrow> real \<Rightarrow> (solver_error + outputs) option" where
  "solver_run_simulation fuel S state t_end output_interval =
     solver_loop fuel S t_end output_interval state 0 0 0 []"

subsection \<open>The split of the release in binary64 arithmetic\<close>

text \<open>
  Python's \<^verbatim>\<open>float\<close> and NumPy's \<^verbatim>\<open>float64\<close> are IEEE 754 binary64 numbers. A finite
  one is written here as a pair \<open>(m, e)\<close> of integers with the value \<open>m * 2\<^sup>e\<close>; a
  product or a sum is the exact result rounded to 53 significant bits, to the nearest
  and to the even significand on a tie. The exponent range is not modelled (no
  overflow, no subnormal numbers).
\<close>

type_synonym binary64 = "int \<times> int"

definition f64_value :: "binary64 \<Rightarrow> real" where
  "f64_value x = of_int (fst x) * 2 powi (snd x)"

text \<open>\<^verbatim>\<open>int.bit_length()\<close> of a non-negative integer.\<close>

function bit_length :: "int \<Rightarrow> nat" where
  "bit_length n = (if n \<le> 0 then 0 else Suc (bit_length (n div 2)))"
  by auto
termination
  by (relation "measure nat") auto

declare bit_length.simps [simp del]

definition round53 :: "int \<Rightarrow> int \<Rightarrow> binary64" where
  "round53 m e =
     (let k = int (bit_length \<bar>m\<bar>) - 53
      in if k \<le> 0 then (m, e)
         else let d = 2 ^ nat k; q = \<bar>m\<bar> div d; r = \<bar>m\<bar> mod d; h = d div 2;
                  q' = (if h < r \<or> (r = h \<and> odd q) then q + 1 else q)
              in (sgn m * q', e + k))"

definition f64_mul :: "binary64 \<Rightarrow> binary64 \<Rightarrow> binary64" where
  "f64_mul x y = round53 (fst x * fst y) (snd x + snd y)"

definition f64_add :: "binary64 \<Rightarrow> binary64 \<Rightarrow> binary64" where
  "f64_add x y =
     (let e = min (snd x) (snd y)
      in round53 (fst x * 2 ^ nat (snd x - e) + fst y * 2 ^ nat (snd y - e)) e)"

text \<open>The literals \<^verbatim>\<open>0.7\<close> and \<^verbatim>\<open>0.3\<close>: the binary64 numbers nearest to 7/10 and
  3/10 (\<^verbatim>\<open>0x1.6666666666666p-1\<close> and \<^verbatim>\<open>0x1.3333333333333p-2\<close>).\<close>

definition f64_0_7 :: binary64 where
  "f64_0_7 = (3152519739159347, - 52)"

definition f64_0_3 :: binary64 where
  "f64_0_3 = (5404319552844595, - 54)"

text \<open>Lines 93-94 and 325-326 in binary64: \<^verbatim>\<open>release * 0.7\<close> and \<^verbatim>\<open>release * 0.3\<close>,
  and the elementwise sum \<^verbatim>\<open>state.h_solid + state.h_fluid\<close> of the two.\<close>

definition initial_depths_f64 ::
  "binary64 list list \<Rightarrow> binary64 list list \<times> binary64 list list" where
  "initial_depths_f64 release =
     (map (map (\<lambda>r. f64_mul r f64_0_7)) release, map (map (\<lambda>r. f64_mul r f64_0_3)) release)"

definition total_depth_f64 :: "binary64 list list \<Rightarrow> binary64 list list" where
  "total_depth_f64 release =
     map2 (map2 f64_add) (fst (initial_depths_f64 release)) (snd (initial_depths_f64 release))"

subsection \<open>A small run\<close>

text \<open>
  A terrain of one row and two columns, two recorded snapshots on it, and stand-ins
  for the collaborators: a release field with the release height in the first cell,
  the solid depth as the pressure diagnostic, and a solver that records the state it
  is given once, at the output interval. The properties below are instantiated on
  these.
\<close>

definition example_terrain :: terrain where
  "example_terrain = \<lparr>rows = 1, cols = 2, cell_size = 10, x_origin = 100, y_origin = 200\<rparr>"

definition example_outputs :: outputs where
  "example_outputs =
     [(1, \<lparr>h_solid = [[1, 0]], h_fluid = [[2, 0]], u_solid = [[3, 0]], v_solid = [[4, 0]],
            u_fluid = [[1, 1]], v_fluid = [[0, 0]]\<rparr>),
      (2, \<lparr>h_solid = [[1/2, 1]], h_fluid = [[1/2, 1/2]], u_solid = [[0, 1]], v_solid = [[0, 0]],
            u_fluid = [[0, 2]], v_fluid = [[0, 0]]\<rparr>)]"

definition example_core :: core where
  "example_core =
     \<lparr>create_release_zone = (\<lambda>T i j radius height. [[height, 0]]),
      compute_impact_pressure = (\<lambda>p s. h_solid s),
      run_simulation = (\<lambda>T p c s t_end output_interval. [(output_interval, s)])\<rparr>"

text \<open>A solver on the small terrain whose update lowers the solid depth by \<open>dt\<close>
  everywhere, with no waves (so that every timestep is \<open>max_timestep\<close>), and a
  state for it to start from.\<close>

definition example_solver :: noc_tvd_solver where
  "example_solver =
     \<lparr>solver_terrain = example_terrain, solver_cfg = synthetic_solver_config,
      max_wave_speed = (\<lambda>s. 0),
      advance = (\<lambda>s dt. s\<lparr>h_solid := map (map (\<lambda>x. x - dt)) (h_solid s)\<rparr>),
      stall_limit = 3\<rparr>"

definition example_state :: flow_state where
  "example_state =
     \<lparr>h_solid = [[1, 0]], h_fluid = [[2, 0]], u_solid = [[3, 4]], v_solid = [[5, 6]],
      u_fluid = [[1, 1]], v_fluid = [[0, 0]]\<rparr>"


text \<open>
  A terrain of five rows and two columns, and a stand-in core whose release zone is
  the release height in the cell at the requested centre (moved into the grid when
  the centre lies beyond its last row or column) and zero elsewhere.
\<close>

definition example_slope :: terrain where
  "example_slope = \<lparr>rows = 5, cols = 2, cell_size = 10, x_origin = 0, y_origin = 0\<rparr>"

definition example_peak_core :: core where
  "example_peak_core =
     \<lparr>create_release_zone =
        (\<lambda>T i j radius height.
           map (\<lambda>a. map (\<lambda>b. if int a = min i (int (rows T) - 1) \<and>
                                 int b = min j (int (cols T) - 1)
                              then height else 0) [0..<cols T]) [0..<rows T]),
      compute_impact_pressure = (\<lambda>p s. h_solid s),
      run_simulation = (\<lambda>T p c s t_end output_interval. [(output_interval, s)])\<rparr>"

section \<open>Properties\<close>

subsection \<open>Configuration constants\<close>


subsection \<open>Facts about arrays\<close>

lemma has_shape_iff:
  "has_shape r c g \<longleftrightarrow> length g = r \<and> (\<forall>i<r. length (g ! i) = c)"
  by (auto simp: has_shape_def list_all_length)



lemma has_shape_np_maximum:
  "has_shape r c a \<Longrightarrow> has_shape r c b \<Longrightarrow> has_shape r c (np_maximum a b)"
  by (simp add: has_shape_iff np_maximum_def)










lemma has_shape_foldl_maximum:
  "has_shape r c a \<Longrightarrow> \<forall>g\<in>set gs. has_shape r c g \<Longrightarrow> has_shape r c (foldl np_maximum a gs)"
  by (induction gs arbitrary: a) (auto simp: has_shape_np_maximum)





lemma accumulate_dem_eq:
  "accumulate_dem cip outs (acc, snaps, ts) =
     (accumulate_maxima cip outs acc,
      snaps @ map (\<lambda>(t, s). np_add (h_solid s) (h_fluid s)) outs,
      ts @ map fst outs)"
proof (induction outs arbitrary: acc snaps ts)
  case Nil
  show ?case by simp
next
  case (Cons o1 outs)
  obtain t s where o1: "o1 = (t, s)" by (cases o1)
  obtain mh mv mp where acc: "acc = (mh, mv, mp)" by (cases acc)
  show ?case by (simp add: o1 acc Cons Let_def)
qed

lemma dem_results_eq:
  "dem_results T cip outs =
     (case synthetic_results T cip outs of
        Inl e \<Rightarrow> Inl e
      | Inr res \<Rightarrow> Inr (res, map (\<lambda>(t, s). np_add (h_solid s) (h_fluid s)) outs))"
  by (simp add: dem_results_def synthetic_results_def accumulate_dem_eq Let_def
      split: prod.splits)


lemma synthetic_results_Inr:
  assumes "synthetic_results T cip outs = Inr res"
  shows "outs \<noteq> []"
    and "res = \<lparr>times_list = map fst outs, max_flow_height = max_flow_height res,
                max_velocity = max_velocity res, max_pressure = max_pressure res,
                final_h_solid = h_solid (snd (last outs)),
                final_h_fluid = h_fluid (snd (last outs)),
                final_u = u_solid (snd (last outs)),
                final_v = v_solid (snd (last outs))\<rparr>"
  using assms
  by (auto simp: synthetic_results_def Let_def split: prod.splits if_splits)

lemma dom_export_metadata:
  "dom (export_metadata T) = {''cell_size'', ''x_origin'', ''y_origin''}"
  by (auto simp: export_metadata_def)

subsection \<open>The small run, evaluated\<close>

lemmas np_defs = np_zeros_def np_add_def np_maximum_def np_square_def np_sqrt_def
  np_scale_def np_sum_def np_sum_axis1_def np_greater_def np_count_greater_def np_argmax_def
  has_shape_def grid_nonneg_def

lemmas example_defs = example_terrain_def example_outputs_def example_core_def



lemma example_run_synthetic:
  "run_synthetic_test example_core example_terrain 30 =
     Inr (\<lparr>exported_results =
             \<lparr>times_list = [1], max_flow_height = [[5, 0]], max_velocity = [[0, 0]],
              max_pressure = [[7/2, 0]], final_h_solid = [[7/2, 0]], final_h_fluid = [[3/2, 0]],
              final_u = [[0, 0]], final_v = [[0, 0]]\<rparr>,
            exported_metadata = [''cell_size'' \<mapsto> 10, ''x_origin'' \<mapsto> 100, ''y_origin'' \<mapsto> 200],
            exported_format = ''npy''\<rparr>,
          \<lparr>initial_volume = 500, final_volume = 500, affected_area_m2 = 100, runout_m = 0,
            time_steps = 1\<rparr>)"
  by (simp add: run_synthetic_test_def synthetic_results_def example_defs np_defs
      initial_state_def FlowState_zeros_def flow_volume_def approximate_runout_def
      runout_index_def affected_area_def export_metadata_def synthetic_params_def
      eval_nat_numeral Let_def)

lemma example_run_dem:
  "run_dem_simulation example_core ''minmod'' ''outflow'' example_terrain 120 None (Some 1) 10 4 =
     Inr (\<lparr>exported_results =
             \<lparr>times_list = [2], max_flow_height = [[4, 0]], max_velocity = [[0, 0]],
              max_pressure = [[14/5, 0]], final_h_solid = [[14/5, 0]], final_h_fluid = [[6/5, 0]],
              final_u = [[0, 0]], final_v = [[0, 0]]\<rparr>,
            exported_metadata = [''cell_size'' \<mapsto> 10, ''x_origin'' \<mapsto> 100, ''y_origin'' \<mapsto> 200],
            exported_format = ''npy''\<rparr>,
          400, [[[4, 0]]], [2])"
  by (simp add: run_dem_simulation_def dem_results_def release_center_def example_defs np_defs
      initial_state_def FlowState_zeros_def flow_volume_def export_metadata_def dem_params_def
      eval_nat_numeral Let_def)

lemmas peak_defs = example_slope_def example_peak_core_def

lemma peak_release_default:
  "create_release_zone example_peak_core example_slope 1 1 10 4 =
     [[0, 0], [0, 4], [0, 0], [0, 0], [0, 0]]"
  by (simp add: peak_defs upt_rec)

lemma peak_release_synthetic:
  "create_release_zone example_peak_core example_slope 15 30 8 5 =
     [[0, 0], [0, 0], [0, 0], [0, 0], [0, 5]]"
  by (simp add: peak_defs upt_rec)

lemma peak_run_synthetic:
  "run_synthetic_test example_peak_core example_slope 30 =
     Inr (\<lparr>exported_results =
             \<lparr>times_list = [1],
              max_flow_height = [[0, 0], [0, 0], [0, 0], [0, 0], [0, 5]],
              max_velocity = [[0, 0], [0, 0], [0, 0], [0, 0], [0, 0]],
              max_pressure = [[0, 0], [0, 0], [0, 0], [0, 0], [0, 7/2]],
              final_h_solid = [[0, 0], [0, 0], [0, 0], [0, 0], [0, 7/2]],
              final_h_fluid = [[0, 0], [0, 0], [0, 0], [0, 0], [0, 3/2]],
              final_u = [[0, 0], [0, 0], [0, 0], [0, 0], [0, 0]],
              final_v = [[0, 0], [0, 0], [0, 0], [0, 0], [0, 0]]\<rparr>,
            exported_metadata = [''cell_size'' \<mapsto> 10, ''x_origin'' \<mapsto> 0, ''y_origin'' \<mapsto> 0],
            exported_format = ''npy''\<rparr>,
          \<lparr>initial_volume = 500, final_volume = 500, affected_area_m2 = 100, runout_m = 40,
            time_steps = 1\<rparr>)"
  unfolding run_synthetic_test_def Let_def
  by (simp add: peak_release_synthetic)
     (simp add: peak_defs synthetic_results_def np_defs
      initial_state_def FlowState_zeros_def flow_volume_def approximate_runout_def
      runout_index_def affected_area_def export_metadata_def synthetic_params_def
      eval_nat_numeral Let_def)


lemma peak_run_dem_default:
  "run_dem_simulation example_peak_core ''minmod'' ''outflow'' example_slope 120 None None 10 4 =
     Inr (\<lparr>exported_results =
             \<lparr>times_list = [2],
              max_flow_height = [[0, 0], [0, 4], [0, 0], [0, 0], [0, 0]],
              max_velocity = [[0, 0], [0, 0], [0, 0], [0, 0], [0, 0]],
              max_pressure = [[0, 0], [0, 14/5], [0, 0], [0, 0], [0, 0]],
              final_h_solid = [[0, 0], [0, 14/5], [0, 0], [0, 0], [0, 0]],
              final_h_fluid = [[0, 0], [0, 6/5], [0, 0], [0, 0], [0, 0]],
              final_u = [[0, 0], [0, 0], [0, 0], [0, 0], [0, 0]],
              final_v = [[0, 0], [0, 0], [0, 0], [0, 0], [0, 0]]\<rparr>,
            exported_metadata = [''cell_size'' \<mapsto> 10, ''x_origin'' \<mapsto> 0, ''y_origin'' \<mapsto> 0],
            exported_format = ''npy''\<rparr>,
          400, [[[0, 0], [0, 4], [0, 0], [0, 0], [0, 0]]], [2])"
  by (simp add: run_dem_simulation_def dem_results_def release_center_def peak_defs np_defs
      initial_state_def FlowState_zeros_def flow_volume_def export_metadata_def dem_params_def
      eval_nat_numeral Let_def upt_rec)

lemma peak_run_dem_row:
  "run_dem_simulation example_peak_core ''minmod'' ''outflow'' example_slope 120 (Some 3) None 10 4 =
     Inr (\<lparr>exported_results =
             \<lparr>times_list = [2],
              max_flow_height = [[0, 0], [0, 0], [0, 0], [0, 4], [0, 0]],
              max_velocity = [[0, 0], [0, 0], [0, 0], [0, 0], [0, 0]],
              max_pressure = [[0, 0], [0, 0], [0, 0], [0, 14/5], [0, 0]],
              final_h_solid = [[0, 0], [0, 0], [0, 0], [0, 14/5], [0, 0]],
              final_h_fluid = [[0, 0], [0, 0], [0, 0], [0, 6/5], [0, 0]],
              final_u = [[0, 0], [0, 0], [0, 0], [0, 0], [0, 0]],
              final_v = [[0, 0], [0, 0], [0, 0], [0, 0], [0, 0]]\<rparr>,
            exported_metadata = [''cell_size'' \<mapsto> 10, ''x_origin'' \<mapsto> 0, ''y_origin'' \<mapsto> 0],
            exported_format = ''npy''\<rparr>,
          400, [[[0, 0], [0, 0], [0, 0], [0, 4], [0, 0]]], [2])"
  by (simp add: run_dem_simulation_def dem_results_def release_center_def peak_defs np_defs
      initial_state_def FlowState_zeros_def flow_volume_def export_metadata_def dem_params_def
      eval_nat_numeral Let_def upt_rec)

text \<open>What a completed run of a driver says about its parts.\<close>

lemma run_synthetic_test_Inr:
  assumes "run_synthetic_test K T t_end = Inr (call, summ)"
  shows "synthetic_results T (compute_impact_pressure K synthetic_params)
           (run_simulation K T synthetic_params synthetic_solver_config
              (initial_state T (create_release_zone K T 15 30 8 5)) t_end 1) =
         Inr (exported_results call)"
    and "approximate_runout T (max_flow_height (exported_results call)) = Inr (runout_m summ)"
  using assms by (auto simp: run_synthetic_test_def Let_def split: sum.splits)

lemma run_dem_simulation_Inr:
  assumes "run_dem_simulation K dl db T t_end release_i release_j radius height =
             Inr (call, v0, snaps, ts)"
  shows "dem_results T (compute_impact_pressure K dem_params)
           (run_simulation K T dem_params (dem_solver_config dl db)
              (initial_state T
                 (create_release_zone K T (fst (release_center T release_i release_j))
                    (snd (release_center T release_i release_j)) radius height))
              t_end (max 1 (t_end / 60))) =
         Inr (exported_results call, snaps)"
    and "v0 = flow_volume T (initial_state T
                 (create_release_zone K T (fst (release_center T release_i release_j))
                    (snd (release_center T release_i release_j)) radius height))"
  using assms
  by (auto simp: run_dem_simulation_def Let_def split: sum.splits prod.splits)

lemma approximate_runout_Inr_nonempty:
  "approximate_runout T g = Inr x \<Longrightarrow> g \<noteq> []"
  by (auto simp: approximate_runout_def runout_index_def np_argmax_def np_greater_def
      np_sum_axis1_def split: sum.splits if_splits)

subsection \<open>Running maxima\<close>



subsection \<open>The exported results\<close>

text \<open>
  C4. When a driver completes, the solver has returned at least one snapshot, and the
  results handed to the exporter are the record of exactly the eight fields
  \<open>times\<close>, \<open>max_flow_height\<close>, \<open>max_velocity\<close>, \<open>max_pressure\<close>, \<open>final_h_solid\<close>,
  \<open>final_h_fluid\<close>, \<open>final_u\<close>, \<open>final_v\<close>: the times are those of the solver's output
  sequence in its order, and the final fields are the depths and the solid velocity
  components of the last recorded snapshot. The metadata has exactly the keys
  \<open>cell_size\<close>, \<open>x_origin\<close>, \<open>y_origin\<close>, with the terrain's values.
\<close>

theorem exported_results_fields:
  "(run_synthetic_test K T t_end = Inr (call, summ) \<longrightarrow>
      (let outs = run_simulation K T synthetic_params synthetic_solver_config
                    (initial_state T (create_release_zone K T 15 30 8 5)) t_end 1;
           final_state = snd (last outs)
       in outs \<noteq> [] \<and>
          exported_results call =
            \<lparr>times_list = map fst outs,
             max_flow_height = max_flow_height (exported_results call),
             max_velocity = max_velocity (exported_results call),
             max_pressure = max_pressure (exported_results call),
             final_h_solid = h_solid final_state, final_h_fluid = h_fluid final_state,
             final_u = u_solid final_state, final_v = v_solid final_state\<rparr> \<and>
          exported_metadata call =
            [''cell_size'' \<mapsto> cell_size T, ''x_origin'' \<mapsto> x_origin T,
             ''y_origin'' \<mapsto> y_origin T] \<and>
          dom (exported_metadata call) = {''cell_size'', ''x_origin'', ''y_origin''})) \<and>
   (run_dem_simulation K dl db T t_end release_i release_j radius height =
        Inr (call', v0, snaps, ts) \<longrightarrow>
      (let (ri, rj) = release_center T release_i release_j;
           outs = run_simulation K T dem_params (dem_solver_config dl db)
                    (initial_state T (create_release_zone K T ri rj radius height))
                    t_end (max 1 (t_end / 60));
           final_state = snd (last outs)
       in outs \<noteq> [] \<and>
          exported_results call' =
            \<lparr>times_list = map fst outs,
             max_flow_height = max_flow_height (exported_results call'),
             max_velocity = max_velocity (exported_results call'),
             max_pressure = max_pressure (exported_results call'),
             final_h_solid = h_solid final_state, final_h_fluid = h_fluid final_state,
             final_u = u_solid final_state, final_v = v_solid final_state\<rparr> \<and>
          exported_metadata call' =
            [''cell_size'' \<mapsto> cell_size T, ''x_origin'' \<mapsto> x_origin T,
             ''y_origin'' \<mapsto> y_origin T] \<and>
          dom (exported_metadata call') = {''cell_size'', ''x_origin'', ''y_origin''}))"
proof (intro conjI impI)
  assume run: "run_synthetic_test K T t_end = Inr (call, summ)"
  let ?outs = "run_simulation K T synthetic_params synthetic_solver_config
                    (initial_state T (create_release_zone K T 15 30 8 5)) t_end 1"
  from run obtain res where
    res: "synthetic_results T (compute_impact_pressure K synthetic_params) ?outs = Inr res"
    and call: "exported_results call = res" "exported_metadata call = export_metadata T"
    by (auto simp: run_synthetic_test_def Let_def split: sum.splits)
  note fields = synthetic_results_Inr[OF res] dom_export_metadata[of T]
  show "let outs = ?outs; final_state = snd (last outs)
       in outs \<noteq> [] \<and>
          exported_results call =
            \<lparr>times_list = map fst outs,
             max_flow_height = max_flow_height (exported_results call),
             max_velocity = max_velocity (exported_results call),
             max_pressure = max_pressure (exported_results call),
             final_h_solid = h_solid final_state, final_h_fluid = h_fluid final_state,
             final_u = u_solid final_state, final_v = v_solid final_state\<rparr> \<and>
          exported_metadata call =
            [''cell_size'' \<mapsto> cell_size T, ''x_origin'' \<mapsto> x_origin T,
             ''y_origin'' \<mapsto> y_origin T] \<and>
          dom (exported_metadata call) = {''cell_size'', ''x_origin'', ''y_origin''}"
    unfolding Let_def call using fields
    by (simp add: export_metadata_def)
next
  assume run: "run_dem_simulation K dl db T t_end release_i release_j radius height =
        Inr (call', v0, snaps, ts)"
  obtain ri rj where c: "release_center T release_i release_j = (ri, rj)"
    by (cases "release_center T release_i release_j")
  let ?outs = "run_simulation K T dem_params (dem_solver_config dl db)
                    (initial_state T (create_release_zone K T ri rj radius height))
                    t_end (max 1 (t_end / 60))"
  from run c obtain res where
    res: "synthetic_results T (compute_impact_pressure K dem_params) ?outs = Inr res"
    and call: "exported_results call' = res" "exported_metadata call' = export_metadata T"
    by (auto simp: run_dem_simulation_def dem_results_eq Let_def split: sum.splits)
  note fields = synthetic_results_Inr[OF res] dom_export_metadata[of T]
  show "let (ri, rj) = release_center T release_i release_j;
           outs = run_simulation K T dem_params (dem_solver_config dl db)
                    (initial_state T (create_release_zone K T ri rj radius height))
                    t_end (max 1 (t_end / 60));
           final_state = snd (last outs)
       in outs \<noteq> [] \<and>
          exported_results call' =
            \<lparr>times_list = map fst outs,
             max_flow_height = max_flow_height (exported_results call'),
             max_velocity = max_velocity (exported_results call'),
             max_pressure = max_pressure (exported_results call'),
             final_h_solid = h_solid final_state, final_h_fluid = h_fluid final_state,
             final_u = u_solid final_state, final_v = v_solid final_state\<rparr> \<and>
          exported_metadata call' =
            [''cell_size'' \<mapsto> cell_size T, ''x_origin'' \<mapsto> x_origin T,
             ''y_origin'' \<mapsto> y_origin T] \<and>
          dom (exported_metadata call') = {''cell_size'', ''x_origin'', ''y_origin''}"
    unfolding Let_def call c prod.case using fields
    by (simp add: export_metadata_def)
qed

theorem exported_results_fields_witness:
  "(\<exists>call summ. run_synthetic_test example_core example_terrain 30 = Inr (call, summ) \<and>
      exported_results call =
        \<lparr>times_list = [1], max_flow_height = [[5, 0]], max_velocity = [[0, 0]],
         max_pressure = [[7/2, 0]], final_h_solid = [[7/2, 0]], final_h_fluid = [[3/2, 0]],
         final_u = [[0, 0]], final_v = [[0, 0]]\<rparr> \<and>
      dom (exported_metadata call) = {''cell_size'', ''x_origin'', ''y_origin''} \<and>
      exported_metadata call ''cell_size'' = Some 10) \<and>
   (\<exists>call v0 snaps ts.
      run_dem_simulation example_core ''minmod'' ''outflow'' example_terrain 120 None (Some 1) 10 4 =
        Inr (call, v0, snaps, ts) \<and>
      times_list (exported_results call) = [2] \<and>
      final_h_solid (exported_results call) = [[14/5, 0]] \<and>
      dom (exported_metadata call) = {''cell_size'', ''x_origin'', ''y_origin''} \<and>
      exported_metadata call ''y_origin'' = Some 200)"
proof -
  note a = exported_results_fields[THEN conjunct1, rule_format, OF example_run_synthetic]
  note b = exported_results_fields[THEN conjunct2, rule_format, OF example_run_dem]
  have "dom (exported_metadata
          \<lparr>exported_results =
             \<lparr>times_list = [1], max_flow_height = [[5, 0]], max_velocity = [[0, 0]],
              max_pressure = [[7/2, 0]], final_h_solid = [[7/2, 0]], final_h_fluid = [[3/2, 0]],
              final_u = [[0, 0]], final_v = [[0, 0]]\<rparr>,
            exported_metadata = [''cell_size'' \<mapsto> 10, ''x_origin'' \<mapsto> 100, ''y_origin'' \<mapsto> 200],
            exported_format = ''npy''\<rparr>) = {''cell_size'', ''x_origin'', ''y_origin''}"
    using a unfolding Let_def by (elim conjE)
  then show ?thesis
    using b by (simp add: example_run_synthetic example_run_dem Let_def)
qed

subsection \<open>Runout\<close>

lemma takeWhile_prefix_holds:
  assumes "k < length (takeWhile P xs)"
  shows "P (xs ! k)"
proof -
  from assms have "takeWhile P xs ! k \<in> set (takeWhile P xs)" by (rule nth_mem)
  then have "P (takeWhile P xs ! k)" by (rule set_takeWhileD[THEN conjunct2])
  with assms show ?thesis by (simp add: takeWhile_nth)
qed

lemma length_takeWhile_Not_Least:
  assumes "\<exists>i<length bs. bs ! i"
  shows "length (takeWhile Not bs) = (LEAST i. i < length bs \<and> bs ! i)"
proof (rule Least_equality[symmetric])
  let ?n = "length (takeWhile Not bs)"
  have le: "?n \<le> k" if "k < length bs \<and> bs ! k" for k
  proof (rule ccontr)
    assume "\<not> ?n \<le> k"
    then have "k < ?n" by simp
    then have "\<not> bs ! k" by (rule takeWhile_prefix_holds)
    with that show False by simp
  qed
  from assms obtain i where i: "i < length bs" "bs ! i" by blast
  with le[of i] have lt: "?n < length bs" by simp
  then show "?n < length bs \<and> bs ! ?n"
    using nth_length_takeWhile[of Not bs] by simp
  show "?n \<le> k" if "k < length bs \<and> bs ! k" for k
    using that by (rule le)
qed

lemma np_argmax_bool:
  fixes bs :: "bool list"
  assumes "bs \<noteq> []"
  shows "np_argmax bs =
     Inr (if \<exists>i<length bs. bs ! i then LEAST i. i < length bs \<and> bs ! i else 0)"
proof (cases "\<exists>i<length bs. bs ! i")
  case True
  then obtain i where "i < length bs" "bs ! i" by blast
  then have mem: "True \<in> set bs" using nth_mem[of i bs] by simp
  have "True \<le> Max (set bs)" using mem by (intro Max_ge) simp_all
  then have "Max (set bs) = True" by simp
  moreover have "(\<lambda>x. x < True) = Not" by (rule ext) simp
  ultimately show ?thesis
    using assms True by (simp add: np_argmax_def length_takeWhile_Not_Least)
next
  case False
  then have all: "\<forall>b\<in>set bs. \<not> b" by (auto simp: in_set_conv_nth)
  from assms obtain b bs' where bs: "bs = b # bs'" by (cases bs) auto
  have "Max (set bs) \<in> set bs" using assms by (intro Max_in) simp_all
  with all have "\<not> Max (set bs)" by blast
  then have "takeWhile (\<lambda>x. x < Max (set bs)) bs = []"
    by (simp add: bs)
  with assms have "np_argmax bs = Inr 0" by (simp add: np_argmax_def)
  with False show ?thesis by (simp only: if_False)
qed

lemma approximate_runout_first_positive_row:
  assumes "max_height \<noteq> []"
  shows "approximate_runout T max_height =
     Inr (cell_size T *
          real (if \<exists>i<length max_height. 0 < sum_list (max_height ! i)
                then LEAST i. i < length max_height \<and> 0 < sum_list (max_height ! i)
                else 0))"
proof -
  let ?bs = "np_greater (np_sum_axis1 max_height) 0"
  have len: "length ?bs = length max_height"
    by (simp add: np_greater_def np_sum_axis1_def)
  have nth: "?bs ! i \<longleftrightarrow> 0 < sum_list (max_height ! i)" if "i < length max_height" for i
    using that by (simp add: np_greater_def np_sum_axis1_def)
  have ne: "?bs \<noteq> []" using assms len by (metis length_0_conv)
  have ex: "(\<exists>i<length ?bs. ?bs ! i) \<longleftrightarrow> (\<exists>i<length max_height. 0 < sum_list (max_height ! i))"
    using nth len by auto
  have least: "(LEAST i. i < length ?bs \<and> ?bs ! i) =
               (LEAST i. i < length max_height \<and> 0 < sum_list (max_height ! i))"
    by (rule arg_cong[where f=Least]) (use nth len in auto)
  show ?thesis
    unfolding approximate_runout_def runout_index_def np_argmax_bool[OF ne] ex least
    by (simp add: mult.commute)
qed

text \<open>
  C5. The approximate runout is the cell size times the smallest row index whose
  row sum of \<open>max_height\<close> is strictly positive, and the cell size times 0 when no
  row sum is positive: this holds of \<open>approximate_runout\<close> on every grid with at
  least one row, and of the runout that a completed \<^verbatim>\<open>run_synthetic_test\<close> reports,
  for the grid of maxima it exported (which then has at least one row).
\<close>

theorem runout_is_first_positive_row:
  "(max_height \<noteq> [] \<longrightarrow>
      approximate_runout T max_height =
        Inr (cell_size T *
             real (if \<exists>i<length max_height. 0 < sum_list (max_height ! i)
                   then LEAST i. i < length max_height \<and> 0 < sum_list (max_height ! i)
                   else 0))) \<and>
   (run_synthetic_test K T t_end = Inr (call, summ) \<longrightarrow>
      (let g = max_flow_height (exported_results call)
       in g \<noteq> [] \<and>
          runout_m summ =
            cell_size T *
            real (if \<exists>i<length g. 0 < sum_list (g ! i)
                  then LEAST i. i < length g \<and> 0 < sum_list (g ! i)
                  else 0)))"
proof (intro conjI impI)
  assume "max_height \<noteq> []"
  then show "approximate_runout T max_height =
        Inr (cell_size T *
             real (if \<exists>i<length max_height. 0 < sum_list (max_height ! i)
                   then LEAST i. i < length max_height \<and> 0 < sum_list (max_height ! i)
                   else 0))"
    by (rule approximate_runout_first_positive_row)
next
  assume run: "run_synthetic_test K T t_end = Inr (call, summ)"
  let ?g = "max_flow_height (exported_results call)"
  from run_synthetic_test_Inr(2)[OF run]
  have r: "approximate_runout T ?g = Inr (runout_m summ)" .
  then have ne: "?g \<noteq> []" by (rule approximate_runout_Inr_nonempty)
  from approximate_runout_first_positive_row[OF ne, of T] r
  have "runout_m summ =
          cell_size T *
          real (if \<exists>i<length ?g. 0 < sum_list (?g ! i)
                then LEAST i. i < length ?g \<and> 0 < sum_list (?g ! i)
                else 0)"
    by simp
  with ne show "let g = ?g
       in g \<noteq> [] \<and>
          runout_m summ =
            cell_size T *
            real (if \<exists>i<length g. 0 < sum_list (g ! i)
                  then LEAST i. i < length g \<and> 0 < sum_list (g ! i)
                  else 0)"
    by (simp only: Let_def simp_thms)
qed

theorem runout_witness:
  "(\<exists>call summ.
      run_synthetic_test example_peak_core example_slope 30 = Inr (call, summ) \<and>
      max_flow_height (exported_results call) = [[0, 0], [0, 0], [0, 0], [0, 0], [0, 5]] \<and>
      runout_m summ = 40 \<and>
      runout_m summ =
        cell_size example_slope *
        real (if \<exists>i<length (max_flow_height (exported_results call)).
                   0 < sum_list (max_flow_height (exported_results call) ! i)
              then LEAST i. i < length (max_flow_height (exported_results call)) \<and>
                      0 < sum_list (max_flow_height (exported_results call) ! i)
              else 0)) \<and>
   approximate_runout example_terrain [[0, 0], [0, 2], [1, 0]] =
     Inr (cell_size example_terrain *
          real (if \<exists>i<length [[0, 0], [0, 2], [1, 0::real]]. 0 < sum_list ([[0, 0], [0, 2], [1, 0::real]] ! i)
                then LEAST i. i < length [[0, 0], [0, 2], [1, 0::real]] \<and>
                        0 < sum_list ([[0, 0], [0, 2], [1, 0::real]] ! i)
                else 0)) \<and>
   approximate_runout example_terrain [[0, 0], [0, 2], [1, 0]] = Inr 10 \<and>
   approximate_runout example_terrain [[0, 0], [0, 0]] = Inr 0"
proof -
  have ne: "([[0, 0], [0, 2], [1, 0]] :: grid) \<noteq> []" by simp
  have v: "approximate_runout example_terrain [[0, 0], [0, 2], [1, 0]] = Inr 10"
    by (simp add: approximate_runout_def runout_index_def np_defs example_terrain_def)
  have z: "approximate_runout example_terrain [[0, 0], [0, 0]] = Inr 0"
    by (simp add: approximate_runout_def runout_index_def np_defs example_terrain_def)
  note g = runout_is_first_positive_row[where max_height = "[[0, 0], [0, 2], [1, 0]]" and T = example_terrain,
      THEN conjunct1, rule_format, OF ne]
  note d = runout_is_first_positive_row[THEN conjunct2, rule_format, OF peak_run_synthetic, unfolded Let_def,
      THEN conjunct2]
  show ?thesis
    apply (intro conjI)
       apply (rule exI, rule exI, intro conjI)
          apply (rule peak_run_synthetic)
         apply simp
        apply simp
       apply (rule d)
      apply (rule g)
     apply (rule v)
    apply (rule z)
    done
qed

subsection \<open>Release centre\<close>

text \<open>
  C10. In \<^verbatim>\<open>run_dem_simulation\<close> a release coordinate the caller omits is taken
  from the terrain extent, the row as \<open>rows div 5\<close> and the column as
  \<open>cols div 2\<close>, and a coordinate the caller supplies is used unchanged: a completed
  run is the run on the release zone requested at exactly that centre, which gives
  the initial volume it prints, the state handed to the solver and, from the
  solver's output, the exported results and snapshots.
\<close>

theorem release_center_default:
  "release_center T None None = (int (rows T) div 5, int (cols T) div 2) \<and>
   release_center T (Some i) None = (i, int (cols T) div 2) \<and>
   release_center T None (Some j) = (int (rows T) div 5, j) \<and>
   release_center T (Some i) (Some j) = (i, j) \<and>
   (run_dem_simulation K dl db T t_end release_i release_j radius height =
        Inr (call, v0, snaps, ts) \<longrightarrow>
      (let ri = (case release_i of None \<Rightarrow> int (rows T) div 5 | Some i' \<Rightarrow> i');
           rj = (case release_j of None \<Rightarrow> int (cols T) div 2 | Some j' \<Rightarrow> j');
           release = create_release_zone K T ri rj radius height;
           outs = run_simulation K T dem_params (dem_solver_config dl db)
                    (initial_state T release) t_end (max 1 (t_end / 60))
       in v0 = flow_volume T (initial_state T release) \<and>
          dem_results T (compute_impact_pressure K dem_params) outs =
            Inr (exported_results call, snaps)))"
proof (intro conjI impI)
  assume run: "run_dem_simulation K dl db T t_end release_i release_j radius height =
        Inr (call, v0, snaps, ts)"
  from run_dem_simulation_Inr[OF run]
  show "let ri = (case release_i of None \<Rightarrow> int (rows T) div 5 | Some i' \<Rightarrow> i');
           rj = (case release_j of None \<Rightarrow> int (cols T) div 2 | Some j' \<Rightarrow> j');
           release = create_release_zone K T ri rj radius height;
           outs = run_simulation K T dem_params (dem_solver_config dl db)
                    (initial_state T release) t_end (max 1 (t_end / 60))
       in v0 = flow_volume T (initial_state T release) \<and>
          dem_results T (compute_impact_pressure K dem_params) outs =
            Inr (exported_results call, snaps)"
    by (simp add: release_center_def Let_def)
qed (simp_all add: release_center_def)

theorem release_center_default_witness:
  "(\<exists>call ts.
      run_dem_simulation example_peak_core ''minmod'' ''outflow'' example_slope 120 None None 10 4 =
        Inr (call, 400, [[[0, 0], [0, 4], [0, 0], [0, 0], [0, 0]]], ts)) \<and>
   400 = flow_volume example_slope
           (initial_state example_slope
              (create_release_zone example_peak_core example_slope 1 1 10 4)) \<and>
   create_release_zone example_peak_core example_slope 1 1 10 4 =
     [[0, 0], [0, 4], [0, 0], [0, 0], [0, 0]] \<and>
   (\<exists>call ts.
      run_dem_simulation example_peak_core ''minmod'' ''outflow'' example_slope 120 (Some 3) None 10 4 =
        Inr (call, 400, [[[0, 0], [0, 0], [0, 0], [0, 4], [0, 0]]], ts)) \<and>
   create_release_zone example_peak_core example_slope 3 1 10 4 =
     [[0, 0], [0, 0], [0, 0], [0, 4], [0, 0]]"
proof -
  note d = release_center_default[THEN conjunct2, THEN conjunct2, THEN conjunct2, THEN conjunct2,
      rule_format, OF peak_run_dem_default, unfolded Let_def, THEN conjunct1]
  have v: "400 = flow_volume example_slope
           (initial_state example_slope
              (create_release_zone example_peak_core example_slope 1 1 10 4))"
    using d by (simp add: example_slope_def)
  have r3: "create_release_zone example_peak_core example_slope 3 1 10 4 =
     [[0, 0], [0, 0], [0, 0], [0, 4], [0, 0]]"
    by (simp add: peak_defs upt_rec)
  from v r3 show ?thesis
    by (simp add: peak_run_dem_default peak_run_dem_row peak_release_default)
qed

subsection \<open>Fluid velocities do not reach the exported velocities\<close>




subsection \<open>The 70/30 split of the release\<close>





lemma nth_np_scale:
  "i < length a \<Longrightarrow> j < length (a ! i) \<Longrightarrow> np_scale a k ! i ! j = a ! i ! j * k"
  by (simp add: np_scale_def)



text \<open>
  In binary64 the two products are rounded, and their sum need not be the release
  height: for a release cell of \<open>3.0\<close> the sum \<open>3.0 * 0.7 + 3.0 * 0.3\<close> is
  \<open>6755399441055743 / 2\<^sup>5\<^sup>1\<close>, one unit in the last place below \<open>3\<close>
  (Python prints \<^verbatim>\<open>2.9999999999999996\<close>).
\<close>

lemmas f64_defs = f64_mul_def f64_add_def round53_def bit_length.simps f64_0_7_def f64_0_3_def
  initial_depths_f64_def total_depth_f64_def Let_def

lemma f64_literals_nearest:
  "\<bar>f64_value f64_0_7 - 7/10\<bar> \<le> 2 powi (- 54) \<and> \<bar>fst f64_0_7\<bar> < 2 ^ 53 \<and>
   \<bar>f64_value f64_0_3 - 3/10\<bar> \<le> 2 powi (- 55) \<and> \<bar>fst f64_0_3\<bar> < 2 ^ 53"
  by (simp add: f64_value_def f64_0_7_def f64_0_3_def power_int_minus field_simps)

lemma example_initial_depths_f64:
  "initial_depths_f64 [[(3, 0)]] =
     ([[(4728779608739020, - 51)]], [[(8106479329266892, - 53)]])"
  by (simp add: f64_defs)




subsection \<open>Non-negative depths\<close>

lemma grid_nonneg_clamp_depth: "grid_nonneg (clamp_depth h)"
  by (auto simp: grid_nonneg_def clamp_depth_def list_all_iff)

lemma clamp_nonneg:
  "grid_nonneg (h_solid (clamp_negative_depths a)) \<and> grid_nonneg (h_fluid (clamp_negative_depths a))"
  by (simp add: clamp_negative_depths_def grid_nonneg_clamp_depth)

lemma nth_clamp_depth:
  "i < length h \<Longrightarrow> j < length (h ! i) \<Longrightarrow>
   clamp_depth h ! i ! j = (if h ! i ! j < 0 then 0 else h ! i ! j)"
  by (simp add: clamp_depth_def)

lemma nth_zero_where_negative:
  "has_shape r c h \<Longrightarrow> has_shape r c w \<Longrightarrow> i < r \<Longrightarrow> j < c \<Longrightarrow>
   zero_where_negative h w ! i ! j = (if h ! i ! j < 0 then 0 else w ! i ! j)"
  by (simp add: has_shape_iff zero_where_negative_def)

lemma solver_loop_nonneg:
  "solver_loop fuel S t_end oi s t t_last stalled acc = Some (Inr outs) \<Longrightarrow>
   depths_nonneg acc \<Longrightarrow> depths_nonneg outs"
proof (induction fuel arbitrary: s t t_last stalled acc)
  case 0
  then show ?case by simp
next
  case (Suc fuel)
  let ?s' = "clamp_negative_depths (advance S s (stable_timestep S s))"
  have rec: "depths_nonneg (acc @ [(t', ?s')])" for t'
    using Suc.prems(2) clamp_nonneg[of "advance S s (stable_timestep S s)"]
    by (simp add: depths_nonneg_def)
  from Suc.prems(1) show ?case
    using Suc.IH rec Suc.prems(2)
    by (auto simp: solver_step_def Let_def split: if_splits)
qed


lemma solver_loop_nonempty:
  "solver_loop fuel S t_end oi s t t_last stalled acc = Some (Inr outs) \<Longrightarrow> outs \<noteq> []"
  by (induction fuel arbitrary: s t t_last stalled acc)
     (auto simp: solver_step_def Let_def split: if_splits)

text \<open>
  C2. In the solver's loop as the spec describes it, the state after every step
  (update, then the clamp of step 5) has no negative solid or fluid depth; in a cell
  where the update left a phase's depth negative that depth and both velocity
  components of the phase are zero afterwards; and no snapshot recorded by a finished
  run holds a negative depth (a finished run records at least one snapshot).
\<close>

theorem depths_nonneg_after_clamp:
  "grid_nonneg (h_solid (fst (solver_step S s))) \<and>
   grid_nonneg (h_fluid (fst (solver_step S s))) \<and>
   (state_has_shape r c (advance S s (stable_timestep S s)) \<and> i < r \<and> j < c \<longrightarrow>
      (h_solid (advance S s (stable_timestep S s)) ! i ! j < 0 \<longrightarrow>
         h_solid (fst (solver_step S s)) ! i ! j = 0 \<and>
         u_solid (fst (solver_step S s)) ! i ! j = 0 \<and>
         v_solid (fst (solver_step S s)) ! i ! j = 0) \<and>
      (h_fluid (advance S s (stable_timestep S s)) ! i ! j < 0 \<longrightarrow>
         h_fluid (fst (solver_step S s)) ! i ! j = 0 \<and>
         u_fluid (fst (solver_step S s)) ! i ! j = 0 \<and>
         v_fluid (fst (solver_step S s)) ! i ! j = 0)) \<and>
   (solver_run_simulation fuel S s t_end output_interval = Some (Inr outs) \<longrightarrow>
      outs \<noteq> [] \<and> depths_nonneg outs)"
proof (intro conjI impI)
  let ?a = "advance S s (stable_timestep S s)"
  have step: "fst (solver_step S s) = clamp_negative_depths ?a"
    by (simp add: solver_step_def Let_def)
  show "grid_nonneg (h_solid (fst (solver_step S s)))"
    and "grid_nonneg (h_fluid (fst (solver_step S s)))"
    by (simp_all add: step clamp_nonneg)
  {
    assume shp: "state_has_shape r c ?a \<and> i < r \<and> j < c"
    then have ij: "i < r" "j < c"
      and hs: "has_shape r c (h_solid ?a)" and hf: "has_shape r c (h_fluid ?a)"
      and us: "has_shape r c (u_solid ?a)" and vs: "has_shape r c (v_solid ?a)"
      and uf: "has_shape r c (u_fluid ?a)" and vf: "has_shape r c (v_fluid ?a)"
      by (simp_all add: state_has_shape_def)
    from hs hf ij have len: "i < length (h_solid ?a)" "j < length (h_solid ?a ! i)"
      "i < length (h_fluid ?a)" "j < length (h_fluid ?a ! i)"
      by (simp_all add: has_shape_iff)
    {
      assume neg: "h_solid ?a ! i ! j < 0"
      show "h_solid (fst (solver_step S s)) ! i ! j = 0"
        using neg len by (simp add: step clamp_negative_depths_def nth_clamp_depth)
      show "u_solid (fst (solver_step S s)) ! i ! j = 0"
        using neg by (simp add: step clamp_negative_depths_def
            nth_zero_where_negative[OF hs us ij])
      show "v_solid (fst (solver_step S s)) ! i ! j = 0"
        using neg by (simp add: step clamp_negative_depths_def
            nth_zero_where_negative[OF hs vs ij])
    }
    {
      assume neg: "h_fluid ?a ! i ! j < 0"
      show "h_fluid (fst (solver_step S s)) ! i ! j = 0"
        using neg len by (simp add: step clamp_negative_depths_def nth_clamp_depth)
      show "u_fluid (fst (solver_step S s)) ! i ! j = 0"
        using neg by (simp add: step clamp_negative_depths_def
            nth_zero_where_negative[OF hf uf ij])
      show "v_fluid (fst (solver_step S s)) ! i ! j = 0"
        using neg by (simp add: step clamp_negative_depths_def
            nth_zero_where_negative[OF hf vf ij])
    }
  }
  {
    assume run: "solver_run_simulation fuel S s t_end output_interval = Some (Inr outs)"
    show "depths_nonneg outs"
      using run solver_loop_nonneg[of fuel S t_end output_interval s 0 0 0 "[]" outs]
      by (simp add: solver_run_simulation_def depths_nonneg_def)
    show "outs \<noteq> []"
      using run solver_loop_nonempty[of fuel S t_end output_interval s 0 0 0 "[]" outs]
      by (simp add: solver_run_simulation_def)
  }
qed

lemmas solver_defs = solver_run_simulation_def solver_step_def stable_timestep_def
  clamp_negative_depths_def clamp_depth_def zero_where_negative_def example_solver_def
  example_state_def example_terrain_def synthetic_solver_config_def

lemma example_step:
  "solver_step example_solver example_state =
     (\<lparr>h_solid = [[1/2, 0]], h_fluid = [[2, 0]], u_solid = [[3, 0]], v_solid = [[5, 0]],
       u_fluid = [[1, 1]], v_fluid = [[0, 0]]\<rparr>, 1/2)"
  by (simp add: solver_defs Let_def)

lemma example_solver_run:
  "solver_run_simulation 5 example_solver example_state 1 1 =
     Some (Inr [(1, \<lparr>h_solid = [[0, 0]], h_fluid = [[2, 0]], u_solid = [[3, 0]],
                      v_solid = [[5, 0]], u_fluid = [[1, 1]], v_fluid = [[0, 0]]\<rparr>)])"
  by (simp add: solver_defs Let_def eval_nat_numeral)


theorem depths_nonneg_after_clamp_witness:
  "state_has_shape 1 2
     (advance example_solver example_state (stable_timestep example_solver example_state)) \<and>
   h_solid (advance example_solver example_state
              (stable_timestep example_solver example_state)) ! 0 ! 1 < 0 \<and>
   grid_nonneg (h_solid (fst (solver_step example_solver example_state))) \<and>
   grid_nonneg (h_fluid (fst (solver_step example_solver example_state))) \<and>
   h_solid (fst (solver_step example_solver example_state)) ! 0 ! 1 = 0 \<and>
   u_solid (fst (solver_step example_solver example_state)) ! 0 ! 1 = 0 \<and>
   v_solid (fst (solver_step example_solver example_state)) ! 0 ! 1 = 0 \<and>
   solver_run_simulation 5 example_solver example_state 1 1 =
     Some (Inr [(1, \<lparr>h_solid = [[0, 0]], h_fluid = [[2, 0]], u_solid = [[3, 0]],
                      v_solid = [[5, 0]], u_fluid = [[1, 1]], v_fluid = [[0, 0]]\<rparr>)]) \<and>
   depths_nonneg [(1, \<lparr>h_solid = [[0, 0]], h_fluid = [[2, 0]], u_solid = [[3, 0]],
                      v_solid = [[5, 0]], u_fluid = [[1, 1]], v_fluid = [[0, 0]]\<rparr>)]"
proof -
  have shp: "state_has_shape 1 2
     (advance example_solver example_state (stable_timestep example_solver example_state))"
    by (simp add: state_has_shape_def has_shape_def solver_defs)
  have neg: "h_solid (advance example_solver example_state
              (stable_timestep example_solver example_state)) ! 0 ! 1 < 0"
    by (simp add: solver_defs)
  from depths_nonneg_after_clamp[where S = example_solver and s = example_state and r = 1
      and c = 2 and i = 0 and j = 1 and fuel = 5 and t_end = 1 and output_interval = 1]
    shp neg example_solver_run
  show ?thesis by simp
qed

end
